theory Spec2Isabelle
  imports Main "HOL-Library.Sublist"
begin

section \<open>Python strings\<close>

text \<open>
  A Python \<open>str\<close> is modelled as a \<open>string\<close> (a list of 8-bit characters), so the
  model covers the code points 0..255; \<open>None\<close> where the code can receive it is
  \<open>None\<close> of an option type. The string methods the sources call are written out
  for these code points as CPython defines them.
\<close>

definition is_space_char :: "char \<Rightarrow> bool" where
  \<comment> \<open>the code points below 256 for which \<open>str.isspace\<close> holds\<close>
  "is_space_char c =
     (let n = (of_char c :: nat)
      in (9 \<le> n \<and> n \<le> 13) \<or> (28 \<le> n \<and> n \<le> 32) \<or> n = 133 \<or> n = 160)"

definition isspace :: "string \<Rightarrow> bool" where
  \<comment> \<open>\<open>s.isspace()\<close>: at least one character, and all of them whitespace\<close>
  "isspace s = (s \<noteq> [] \<and> list_all is_space_char s)"

definition strip :: "string \<Rightarrow> string" where
  \<comment> \<open>\<open>s.strip()\<close>\<close>
  "strip s = rev (dropWhile is_space_char (rev (dropWhile is_space_char s)))"

definition lower_char :: "char \<Rightarrow> char" where
  "lower_char c =
     (let n = (of_char c :: nat)
      in if (65 \<le> n \<and> n \<le> 90) \<or> (192 \<le> n \<and> n \<le> 222 \<and> n \<noteq> 215)
         then char_of (n + 32) else c)"

definition lower :: "string \<Rightarrow> string" where
  \<comment> \<open>\<open>s.lower()\<close>\<close>
  "lower s = map lower_char s"

fun str_in :: "string \<Rightarrow> string \<Rightarrow> bool" where
  \<comment> \<open>\<open>needle in hay\<close>\<close>
  "str_in needle [] = (needle = [])"
| "str_in needle (c # cs) = (prefix needle (c # cs) \<or> str_in needle cs)"

definition startswith :: "string \<Rightarrow> string \<Rightarrow> bool" where
  \<comment> \<open>\<open>s.startswith(p)\<close>\<close>
  "startswith s p = prefix p s"

definition basename :: "string \<Rightarrow> string" where
  \<comment> \<open>\<open>os.path.basename\<close> (POSIX): what follows the last slash\<close>
  "basename p = rev (takeWhile (\<lambda>c. c \<noteq> CHR ''/'') (rev p))"

fun digits :: "nat \<Rightarrow> string" where
  "digits n =
     (if n < 10 then [char_of (48 + n)]
      else digits (n div 10) @ [char_of (48 + n mod 10)])"

definition str_int :: "int \<Rightarrow> string" where
  \<comment> \<open>\<open>str(i)\<close> of an integer, as an f-string renders it\<close>
  "str_int i = (if i < 0 then CHR ''-'' # digits (nat (- i)) else digits (nat i))"

abbreviation apos :: string where
  \<comment> \<open>a single quote, where a literal would end with one\<close>
  "apos \<equiv> [CHR 0x27]"

section \<open>Exceptions, effects and the outside world\<close>

text \<open>
  Every exception the sources catch or let escape is a value. Each carries \<open>str(e)\<close>,
  the text an f-string prints for it; \<open>ollama.ResponseError\<close> also carries the
  \<open>status_code\<close> and \<open>error\<close> attributes the sources read. \<open>HTTPError\<close> is the
  subclass of \<open>RequestException\<close> that \<open>raise_for_status\<close> raises; the constructor
  \<open>RequestException\<close> stands for the other ones (connection errors, timeouts).
\<close>

datatype exn =
    NameError string
  | ValueError string
  | ResponseError string int string
  | HTTPError string
  | RequestException string
  | OtherException string

fun exn_str :: "exn \<Rightarrow> string" where
  "exn_str (NameError m) = m"
| "exn_str (ValueError m) = m"
| "exn_str (ResponseError m sc err) = m"
| "exn_str (HTTPError m) = m"
| "exn_str (RequestException m) = m"
| "exn_str (OtherException m) = m"

datatype json =
    JNull
  | JBool bool
  | JStr string
  | JArr "json list"
  | JObj "(string \<times> json) list"

record http_request =
  req_url :: string
  req_headers :: "(string \<times> string) list"
  req_data :: json
  req_timeout :: nat

record response =
  status_code :: int
  text_of :: string
  reason :: string
  resp_url :: string

text \<open>
  What a run does to the outside is a list of events, in program order: console
  output, prompts, and the calls to the recorder, the speech model, the generative
  model and the webhook. \<open>req_data\<close> holds the value that \<open>json.dumps\<close>
  serialises.
\<close>

datatype event =
    Print string
  | Input string
  | SdRecord int string
  | WhisperLoad string
  | WhisperTranscribe string
  | OllamaShow "string option" string
  | OllamaChat "string option" string string
  | HttpPost http_request

text \<open>
  What the outside answers is a record of oracles, one for each external call. The
  theorems hold for every such record.
\<close>

record world =
  user_input :: "string \<Rightarrow> string"
  builtin_int :: "string \<Rightarrow> int option"
  sd_record :: "int \<Rightarrow> string \<Rightarrow> exn + unit"
  path_exists :: "string \<Rightarrow> bool"
  whisper_imported :: bool
  whisper_load_model :: "string \<Rightarrow> exn + unit"
  whisper_transcribe :: "string \<Rightarrow> exn + string"
  getenv :: "string \<Rightarrow> string option"
  ollama_base_url :: "string option \<Rightarrow> string"
  ollama_show :: "string option \<Rightarrow> string \<Rightarrow> exn + unit"
  ollama_chat :: "string option \<Rightarrow> string \<Rightarrow> string \<Rightarrow> exn + string"
  requests_post :: "http_request \<Rightarrow> exn + response"

primrec http_posts :: "event list \<Rightarrow> http_request list" where
  \<comment> \<open>the requests sent during a run, in order\<close>
  "http_posts [] = []"
| "http_posts (e # evs) = (case e of HttpPost r \<Rightarrow> r # http_posts evs | _ \<Rightarrow> http_posts evs)"

text \<open>The calls to the generative model, and those to the speech model.\<close>

definition ollama_calls :: "event list \<Rightarrow> event list" where
  "ollama_calls evs =
     filter (\<lambda>e. case e of OllamaShow h m \<Rightarrow> True | OllamaChat h m p \<Rightarrow> True | _ \<Rightarrow> False) evs"

definition whisper_calls :: "event list \<Rightarrow> event list" where
  "whisper_calls evs =
     filter (\<lambda>e. case e of WhisperLoad m \<Rightarrow> True | WhisperTranscribe p \<Rightarrow> True | _ \<Rightarrow> False) evs"

section \<open>teams_poster.py\<close>

record teams_poster =
  webhook_url :: string

definition teams_poster_init :: "string option \<Rightarrow> (exn + teams_poster) \<times> event list" where
  \<comment> \<open>\<open>TeamsPoster.__init__\<close>\<close>
  "teams_poster_init url =
     (case url of
        None \<Rightarrow> (Inl (ValueError ''MS Teams Webhook URL cannot be empty.''), [])
      | Some u \<Rightarrow>
          if u = [] then (Inl (ValueError ''MS Teams Webhook URL cannot be empty.''), [])
          else (Inr \<lparr>webhook_url = u\<rparr>,
                if \<not> startswith u ''https://''
                then [Print ''Warning: The provided webhook URL seems invalid. Ensure it's a correct MS Teams Incoming Webhook URL.'']
                else []))"

definition raise_for_status :: "response \<Rightarrow> exn + unit" where
  \<comment> \<open>\<open>requests.Response.raise_for_status\<close>\<close>
  "raise_for_status r =
     (if 400 \<le> status_code r \<and> status_code r < 500
      then Inl (HTTPError (str_int (status_code r) @ '' Client Error: '' @ reason r
                           @ '' for url: '' @ resp_url r))
      else if 500 \<le> status_code r \<and> status_code r < 600
      then Inl (HTTPError (str_int (status_code r) @ '' Server Error: '' @ reason r
                           @ '' for url: '' @ resp_url r))
      else Inr ())"

definition card_payload :: "string option \<Rightarrow> string \<Rightarrow> json" where
  \<comment> \<open>the dictionary \<open>payload\<close> of \<open>post_message\<close>\<close>
  "card_payload title message_text =
     JObj [
       (''type'', JStr ''message''),
       (''attachments'', JArr [
          JObj [
            (''contentType'', JStr ''application/vnd.microsoft.card.adaptive''),
            (''contentUrl'', JNull),
            (''content'', JObj [
               (''$schema'', JStr ''http://adaptivecards.io/schemas/adaptive-card.json''),
               (''type'', JStr ''AdaptiveCard''),
               (''version'', JStr ''1.4''),
               (''body'', JArr [
                  JObj [
                    (''type'', JStr ''TextBlock''),
                    (''text'', (case title of None \<Rightarrow> JNull | Some t \<Rightarrow> JStr t)),
                    (''weight'', JStr ''bolder''),
                    (''size'', JStr ''medium'')],
                  JObj [
                    (''type'', JStr ''TextBlock''),
                    (''text'', JStr message_text),
                    (''wrap'', JBool True)]])])]])]"

definition post_request :: "teams_poster \<Rightarrow> string option \<Rightarrow> string \<Rightarrow> http_request" where
  \<comment> \<open>the arguments of the one \<open>requests.post\<close> call\<close>
  "post_request self title message_text =
     \<lparr>req_url = webhook_url self,
      req_headers = [(''Content-Type'', ''application/json'')],
      req_data = card_payload title message_text,
      req_timeout = 10\<rparr>"

definition post_failure_prints :: "exn \<Rightarrow> event list" where
  \<comment> \<open>the three \<open>except\<close> clauses of \<open>post_message\<close>, in their order; the response of an
     \<open>HTTPError\<close> is falsy (its status is an error status) or absent, so the second
     line is always the fallback text\<close>
  "post_failure_prints e =
     (case e of
        HTTPError m \<Rightarrow>
          [Print (''HTTP error posting to MS Teams: '' @ m),
           Print ''Response content: No response content'']
      | RequestException m \<Rightarrow> [Print (''Error posting to MS Teams: '' @ m)]
      | _ \<Rightarrow> [Print (''An unexpected error occurred while posting to Teams: '' @ exn_str e)])"

definition post_message ::
    "world \<Rightarrow> teams_poster \<Rightarrow> string option \<Rightarrow> string \<Rightarrow> bool \<times> event list" where
  \<comment> \<open>\<open>TeamsPoster.post_message\<close>\<close>
  "post_message w self title message_text =
     (if message_text = [] \<or> isspace message_text
      then (False, [Print ''Message text is empty. Nothing to post to Teams.''])
      else
        let req = post_request self title message_text;
            evs = [Print ''\<newline>Posting message to MS Teams...'', HttpPost req]
        in case requests_post w req of
             Inl e \<Rightarrow> (False, evs @ post_failure_prints e)
           | Inr resp \<Rightarrow>
               (case raise_for_status resp of
                  Inl e \<Rightarrow> (False, evs @ post_failure_prints e)
                | Inr u \<Rightarrow>
                    if status_code resp = 200 \<or> text_of resp = ''1''
                    then (True, evs @ [Print ''Message posted successfully to MS Teams.''])
                    else (False, evs @ [Print (''Failed to post message to MS Teams. Status: ''
                                               @ str_int (status_code resp) @ '', Response: ''
                                               @ text_of resp)])))"

section \<open>transcriber.py\<close>

record transcriber =
  model_name :: string
  model :: bool

definition transcriber_init :: "world \<Rightarrow> string \<Rightarrow> transcriber \<times> event list" where
  \<comment> \<open>\<open>Transcriber.__init__\<close>; \<open>model\<close> is false where the source leaves \<open>self.model\<close> at \<open>None\<close>\<close>
  "transcriber_init w name =
     (if whisper_imported w
      then
        let evs = [Print (''Loading Whisper model '' @ apos @ name @ apos @ ''...''),
                   WhisperLoad name]
        in case whisper_load_model w name of
             Inr u \<Rightarrow>
               (\<lparr>model_name = name, model = True\<rparr>,
                evs @ [Print ''Whisper model loaded successfully.''])
           | Inl e \<Rightarrow>
               (\<lparr>model_name = name, model = False\<rparr>,
                evs @ [Print (''Error loading Whisper model '' @ apos @ name @ apos @ '': ''
                              @ exn_str e),
                       Print ''Please ensure the model name is correct and you have enough resources.''])
      else (\<lparr>model_name = name, model = False\<rparr>,
            [Print ''Whisper library is not available. Transcription will not work.'']))"

definition transcription_error_message :: "exn \<Rightarrow> string" where
  \<comment> \<open>\<open>error_message\<close> of the last \<open>except\<close> clause of \<open>transcribe_audio\<close>\<close>
  "transcription_error_message e =
     (let error_message = ''Error during Whisper transcription: '' @ exn_str e
      in if str_in ''ffmpeg'' (lower (exn_str e))
         then error_message
              @ ''\<newline>This might be due to ffmpeg not being installed or not found in PATH.''
              @ ''\<newline>Please install ffmpeg: https://ffmpeg.org/download.html''
         else error_message)"

definition transcribe_audio :: "world \<Rightarrow> transcriber \<Rightarrow> string \<Rightarrow> string \<times> event list" where
  \<comment> \<open>\<open>Transcriber.transcribe_audio\<close>\<close>
  "transcribe_audio w self audio_file_path =
     (if \<not> model self then (''Error: Whisper model not loaded. Cannot transcribe.'', [])
      else if \<not> path_exists w audio_file_path
      then (''Error: Audio file '' @ audio_file_path @ '' not found.'', [])
      else
        let evs = [Print (''Transcribing '' @ audio_file_path @ '' using Whisper model '' @ apos
                          @ model_name self @ apos @ ''...''),
                   WhisperTranscribe audio_file_path]
        in case whisper_transcribe w audio_file_path of
             Inr transcript \<Rightarrow> (transcript, evs @ [Print ''Transcription complete.''])
           | Inl (NameError m) \<Rightarrow>
               (''Error: Whisper library is not installed or failed to import. Cannot transcribe.'',
                evs)
           | Inl e \<Rightarrow>
               (transcription_error_message e, evs @ [Print (transcription_error_message e)]))"

section \<open>text_processor.py\<close>

record text_processor =
  ollama_model_name :: string
  client_host :: "string option"

definition text_processor_init ::
    "world \<Rightarrow> string \<Rightarrow> string option \<Rightarrow> (exn + text_processor) \<times> event list" where
  \<comment> \<open>\<open>TextProcessor.__init__\<close>: an empty host is the default client; only
     \<open>ollama.ResponseError\<close> is caught\<close>
  "text_processor_init w name ollama_host =
     (let h = (case ollama_host of None \<Rightarrow> None | Some x \<Rightarrow> if x = [] then None else Some x);
          evs = [Print (''Ollama client for text processing initialized. Model: '' @ name
                        @ '', Target host: '' @ ollama_base_url w h),
                 OllamaShow h name]
      in case ollama_show w h name of
           Inr u \<Rightarrow>
             (Inr \<lparr>ollama_model_name = name, client_host = h\<rparr>,
              evs @ [Print (''Successfully connected to Ollama and model '' @ apos @ name @ apos
                            @ '' is available.'')])
         | Inl (ResponseError m sc err) \<Rightarrow>
             (Inr \<lparr>ollama_model_name = name, client_host = h\<rparr>,
              evs @ [Print (''Warning: Ollama model '' @ apos @ name @ apos
                            @ '' not found or error connecting: '' @ m),
                     Print ''Summarization and action item generation may fail if the model is not available.''])
         | Inl e \<Rightarrow> (Inl e, evs))"

definition summarize_prompt :: "string \<Rightarrow> string" where
  "summarize_prompt text =
     ''Summarize the following text in about 3-4 key sentences:\<newline>\<newline>'' @ text
     @ ''\<newline>\<newline>Summary:''"

definition summarize_text :: "world \<Rightarrow> text_processor \<Rightarrow> string \<Rightarrow> string \<times> event list" where
  \<comment> \<open>\<open>TextProcessor.summarize_text\<close>\<close>
  "summarize_text w self text =
     (if text = [] \<or> isspace text then (''Error: Input text is empty, cannot summarize.'', [])
      else
        let evs = [Print (''\<newline>Summarizing text using Ollama model '' @ ollama_model_name self
                          @ ''...''),
                   OllamaChat (client_host self) (ollama_model_name self) (summarize_prompt text)]
        in case ollama_chat w (client_host self) (ollama_model_name self) (summarize_prompt text) of
             Inr summary \<Rightarrow> (strip summary, evs @ [Print ''Summarization complete.''])
           | Inl (ResponseError m sc err) \<Rightarrow>
               (let error_msg = ''Error during summarization with Ollama: '' @ str_int sc
                                @ '' - '' @ err
                in (error_msg, evs @ [Print error_msg]))
           | Inl e \<Rightarrow>
               (let error_msg = ''An unexpected error occurred during summarization: ''
                                @ exn_str e
                in (error_msg, evs @ [Print error_msg])))"

definition action_items_prompt :: "string \<Rightarrow> string" where
  "action_items_prompt text =
     ''Based on the following text, extract key action items.\<newline>''
     @ ''If no specific action items are mentioned, state 'No specific action items found'.\<newline>''
     @ ''Present the action items as a bulleted list.\<newline>\<newline>Text:\<newline>'' @ text
     @ ''\<newline>\<newline>Action Items:''"

definition generate_action_items ::
    "world \<Rightarrow> text_processor \<Rightarrow> string \<Rightarrow> string \<times> event list" where
  \<comment> \<open>\<open>TextProcessor.generate_action_items\<close>\<close>
  "generate_action_items w self text =
     (if text = [] \<or> isspace text
      then (''Error: Input text is empty, cannot generate action items.'', [])
      else
        let evs = [Print (''\<newline>Generating action items using Ollama model ''
                          @ ollama_model_name self @ ''...''),
                   OllamaChat (client_host self) (ollama_model_name self)
                     (action_items_prompt text)]
        in case ollama_chat w (client_host self) (ollama_model_name self)
                  (action_items_prompt text) of
             Inr action_items \<Rightarrow>
               (strip action_items, evs @ [Print ''Action item generation complete.''])
           | Inl (ResponseError m sc err) \<Rightarrow>
               (let error_msg = ''Error during action item generation with Ollama: ''
                                @ str_int sc @ '' - '' @ err
                in (error_msg, evs @ [Print error_msg]))
           | Inl e \<Rightarrow>
               (let error_msg = ''An unexpected error occurred during action item generation: ''
                                @ exn_str e
                in (error_msg, evs @ [Print error_msg])))"

section \<open>audio_recorder.py\<close>

definition record_audio :: "world \<Rightarrow> int \<Rightarrow> string \<Rightarrow> (exn + string) \<times> event list" where
  \<comment> \<open>\<open>AudioRecorder.record_audio\<close>; \<open>SdRecord\<close> is the recording and the writing of
     the file, which may raise\<close>
  "record_audio w duration output_filename =
     (let evs = [Print (''Recording for '' @ str_int duration @ '' seconds...''),
                 SdRecord duration output_filename]
      in case sd_record w duration output_filename of
           Inl e \<Rightarrow> (Inl e, evs)
         | Inr u \<Rightarrow> (Inr output_filename,
                     evs @ [Print (''Recording saved to '' @ output_filename)]))"

section \<open>main.py\<close>

text \<open>
  \<open>main\<close> is split at its numbered sections. Its result is \<open>Inr ()\<close> when it returns
  and \<open>Inl e\<close> when the exception \<open>e\<close> escapes it; \<open>input\<close> is taken to return.
\<close>

definition main_teams :: "world \<Rightarrow> string \<Rightarrow> string \<Rightarrow> event list" where
  \<comment> \<open>section 4, Post Action Items to MS Teams\<close>
  "main_teams w audio_file_to_process action_items =
     (if action_items \<noteq> [] \<and> \<not> str_in ''Error:'' action_items
         \<and> \<not> str_in ''No specific action items found'' action_items
      then
        (case getenv w ''MS_TEAMS_WEBHOOK_URL'' of
           Some teams_webhook_url \<Rightarrow>
             if teams_webhook_url \<noteq> []
             then
               let question = ''Do you want to post these action items to MS Teams? (yes/no): '';
                   post_choice = lower (strip (user_input w question))
               in Input question #
                  (if post_choice = ''yes''
                   then
                     (case teams_poster_init (Some teams_webhook_url) of
                        (Inr poster, evs) \<Rightarrow>
                          let audio_basename = basename audio_file_to_process;
                              teams_title = ''Action Items from: '' @ audio_basename;
                              (post_successful, evs') =
                                 post_message w poster (Some teams_title) action_items
                          in evs @ evs'
                             @ (if \<not> post_successful
                                then [Print ''There was an issue posting to MS Teams. Please check the logs above and your webhook URL.'']
                                else [])
                      | (Inl (ValueError m), evs) \<Rightarrow>
                          evs @ [Print (''Error initializing Teams Poster: '' @ m)]
                      | (Inl e, evs) \<Rightarrow>
                          evs @ [Print (''An unexpected error occurred during Teams posting: ''
                                        @ exn_str e)])
                   else [Print ''Skipping MS Teams post.''])
             else [Print ''\<newline>MS_TEAMS_WEBHOOK_URL not set. Skipping Teams posting.'',
                   Print ''To enable, set MS_TEAMS_WEBHOOK_URL in your .env file or environment variables.'']
         | None \<Rightarrow>
             [Print ''\<newline>MS_TEAMS_WEBHOOK_URL not set. Skipping Teams posting.'',
              Print ''To enable, set MS_TEAMS_WEBHOOK_URL in your .env file or environment variables.''])
      else if str_in ''No specific action items found'' action_items
      then [Print ''\<newline>No specific action items were generated, so nothing to post to MS Teams.'']
      else [Print ''\<newline>No valid action items generated or an error occurred. Skipping MS Teams posting.''])"

definition main_process :: "world \<Rightarrow> string \<Rightarrow> string \<Rightarrow> (exn + unit) \<times> event list" where
  \<comment> \<open>from the second check of the transcript to the end: section 3, Process Text using
     Ollama, then section 4\<close>
  "main_process w audio_file_to_process transcript =
     (if transcript = [] \<or> isspace transcript
      then (Inr (),
            [Print ''\<newline>No valid transcript obtained. Skipping text processing and Teams posting.'',
             Print ''\<newline>Application processing complete.''])
      else
        let ollama_host = getenv w ''OLLAMA_HOST'';
            ollama_model = (case getenv w ''OLLAMA_MODEL'' of None \<Rightarrow> ''llama2'' | Some m \<Rightarrow> m);
            evs0 = [Print (''\<newline>--- Initializing Ollama Text Processor (Model: ''
                           @ ollama_model @ '') ---'')]
        in case text_processor_init w ollama_model ollama_host of
             (Inl e, evs1) \<Rightarrow> (Inl e, evs0 @ evs1)
           | (Inr text_processor, evs1) \<Rightarrow>
               let (summary, evs2) = summarize_text w text_processor transcript;
                   (action_items, evs3) = generate_action_items w text_processor transcript
               in (Inr (),
                   evs0 @ evs1 @ evs2
                   @ [Print ''\<newline>--- Summary (from Ollama) ---'',
                      Print summary,
                      Print ''-----------------------------'']
                   @ evs3
                   @ [Print ''\<newline>--- Action Items (from Ollama) ---'',
                      Print action_items,
                      Print ''----------------------------------'']
                   @ main_teams w audio_file_to_process action_items
                   @ [Print ''\<newline>Application processing complete.'']))"

definition main_transcribe :: "world \<Rightarrow> string \<Rightarrow> (exn + unit) \<times> event list" where
  \<comment> \<open>section 2, Transcribe Audio using Whisper, and what follows it\<close>
  "main_transcribe w audio_file_to_process =
     (let (transcriber, evs0) = transcriber_init w ''tiny'';
          evs1 = Print ''\<newline>--- Initializing Whisper Transcriber ---'' # evs0
      in if model transcriber
         then
           let (transcript_or_error, evs2) = transcribe_audio w transcriber audio_file_to_process;
               evs3 = evs1 @ [Print (''\<newline>--- Transcribing Audio: '' @ audio_file_to_process
                                     @ '' ---'')] @ evs2
           in if str_in ''Error:'' transcript_or_error \<or> strip transcript_or_error = []
              then (Inr (),
                    evs3 @ [Print (''Transcription result: '' @ transcript_or_error),
                            Print ''Cannot proceed without a valid transcript.''])
              else
                let transcript = transcript_or_error;
                    (r, evs4) = main_process w audio_file_to_process transcript
                in (r, evs3 @ [Print ''\<newline>--- Transcript ---'',
                               Print transcript,
                               Print ''------------------''] @ evs4)
         else (Inr (),
               evs1 @ [Print ''Whisper model not loaded. Cannot transcribe. Please check installation and model name.'',
                       Print ''You can try running 'python src/transcriber.py' directly to debug Whisper setup.'']))"

definition main_banner :: "event list" where
  "main_banner =
     [Print ''Audio Processor Application'',
      Print ''---------------------------'',
      Print ''IMPORTANT: Ensure 'openai-whisper' is installed and 'ffmpeg' is available in your system PATH.'',
      Print ''Ensure your Ollama instance is running and the specified model (e.g., 'llama2') is pulled.'',
      Print ''For MS Teams posting, ensure MS_TEAMS_WEBHOOK_URL is set in your .env file or environment.\<newline>'']"

definition duration_question :: string where
  "duration_question =
     ''Enter recording duration in seconds (e.g., 5, or 0 to skip recording and use existing 'recorded_audio.wav'): ''"

definition main :: "world \<Rightarrow> (exn + unit) \<times> event list" where
  \<comment> \<open>\<open>main\<close>: section 1, Record Audio, then the rest\<close>
  "main w =
     (let duration_str = user_input w duration_question;
          (duration, evs0) =
             (case builtin_int w duration_str of
                Some d \<Rightarrow> (d, [])
              | None \<Rightarrow> (5, [Print ''Invalid duration entered. Defaulting to 5 seconds.'']));
          evs1 = main_banner @ [Input duration_question] @ evs0;
          output_filename = ''recorded_audio.wav''
      in if duration > 0
         then
           let evs2 = evs1 @ [Print (''\<newline>Preparing to record for '' @ str_int duration
                                     @ '' seconds. Speak into your microphone.'')]
           in case record_audio w duration output_filename of
                (Inl e, evs3) \<Rightarrow> (Inl e, evs2 @ evs3)
              | (Inr audio_file_to_process, evs3) \<Rightarrow>
                  let (r, evs4) = main_transcribe w audio_file_to_process
                  in (r, evs2 @ evs3
                         @ [Print (''Audio recorded and saved to '' @ audio_file_to_process)]
                         @ evs4)
         else if path_exists w output_filename
         then
           let audio_file_to_process = output_filename;
               (r, evs4) = main_transcribe w audio_file_to_process
           in (r, evs1 @ [Print (''\<newline>Skipping recording. Using existing file: ''
                                 @ audio_file_to_process)] @ evs4)
         else (Inr (),
               evs1 @ [Print (''\<newline>Skipping recording, but '' @ output_filename
                              @ '' not found. Please record audio first or place the file.'')]))"

section \<open>app.py\<close>

text \<open>
  The Streamlit script is not embedded. Its line 109, the assignment to
  \<open>st.session_state.action_items\<close>, is indented by eight blanks after three
  statements indented by four, with no block opened in between, and the lines up to
  146 follow it at that depth. Python rejects such a file with an
  \<open>IndentationError\<close> when it compiles it, so no statement of the script is ever
  executed, and there is no run of it to describe.
\<close>

section \<open>Reading a JSON value\<close>

fun jmember :: "string \<Rightarrow> json \<Rightarrow> json option" where
  \<comment> \<open>the member of an object under a key\<close>
  "jmember k (JObj kvs) = map_of kvs k"
| "jmember k j = None"

definition card_blocks :: "json \<Rightarrow> json list option" where
  \<comment> \<open>the \<open>body\<close> array of the content of the single attachment of a message\<close>
  "card_blocks p =
     (case jmember ''attachments'' p of
        Some (JArr [a]) \<Rightarrow>
          (case jmember ''content'' a of
             Some c \<Rightarrow> (case jmember ''body'' c of Some (JArr bs) \<Rightarrow> Some bs | _ \<Rightarrow> None)
           | None \<Rightarrow> None)
      | _ \<Rightarrow> None)"

section \<open>Sample runs\<close>

text \<open>
  A world in which everything works: the user asks for five seconds of recording and
  answers the question about Teams with \<open>Yes\<close>, the speech model returns a sentence
  (with the leading blank Whisper puts before its text), the generative model returns
  one bullet, and the webhook is configured and answers 200 with the body \<open>1\<close>.
\<close>

definition sample_response :: response where
  "sample_response =
     \<lparr>status_code = 200, text_of = ''1'', reason = ''OK'',
      resp_url = ''https://teams.example/hook''\<rparr>"

definition sample_world :: world where
  "sample_world =
     \<lparr>user_input = (\<lambda>q. if q = duration_question then ''5'' else '' Yes ''),
      builtin_int = (\<lambda>s. if s = ''5'' then Some 5 else None),
      sd_record = (\<lambda>d f. Inr ()),
      path_exists = (\<lambda>p. True),
      whisper_imported = True,
      whisper_load_model = (\<lambda>n. Inr ()),
      whisper_transcribe = (\<lambda>p. Inr '' Mike will fix the login bug by Friday.''),
      getenv = (\<lambda>k. if k = ''MS_TEAMS_WEBHOOK_URL'' then Some ''https://teams.example/hook''
                     else None),
      ollama_base_url = (\<lambda>h. ''http://127.0.0.1:11434''),
      ollama_show = (\<lambda>h m. Inr ()),
      ollama_chat = (\<lambda>h m p. Inr ''- Mike: fix the login bug by Friday''),
      requests_post = (\<lambda>r. Inr sample_response)\<rparr>"

definition sample_poster :: teams_poster where
  "sample_poster = \<lparr>webhook_url = ''https://teams.example/hook''\<rparr>"

text \<open>The same world, with a webhook that answers 500 with the body \<open>1\<close>.\<close>

definition server_error_response :: response where
  "server_error_response =
     \<lparr>status_code = 500, text_of = ''1'', reason = ''Internal Server Error'',
      resp_url = ''https://teams.example/hook''\<rparr>"

definition server_error_world :: world where
  "server_error_world = sample_world\<lparr>requests_post := (\<lambda>r. Inr server_error_response)\<rparr>"

definition sample_processor :: text_processor where
  "sample_processor = \<lparr>ollama_model_name = ''llama2'', client_host = None\<rparr>"

text \<open>
  Three more worlds. In the first the generative model answers with the sentinel in
  lower case and with a full stop, in the second with the sentinel as the prompt
  words it; in the third the model is not installed, and every call of the client
  raises \<open>ollama.ResponseError\<close> with status 404.
\<close>

definition lowercase_sentinel_world :: world where
  "lowercase_sentinel_world =
     sample_world\<lparr>ollama_chat := (\<lambda>h m p. Inr ''no specific action items found.'')\<rparr>"

definition sentinel_world :: world where
  "sentinel_world =
     sample_world\<lparr>ollama_chat := (\<lambda>h m p. Inr ''No specific action items found'')\<rparr>"

definition model_missing_world :: world where
  "model_missing_world =
     sample_world
       \<lparr>ollama_show := (\<lambda>h m. Inl (ResponseError ''model 'llama2' not found'' 404
                                     ''model 'llama2' not found'')),
        ollama_chat := (\<lambda>h m p. Inl (ResponseError ''model 'llama2' not found'' 404
                                       ''model 'llama2' not found''))\<rparr>"

section \<open>Facts about the strings and the events\<close>

lemma isspace_blanks: "isspace ''  ''"
  by (simp add: isspace_def is_space_char_def)

lemma not_isspace_item: "\<not> isspace ''- item''"
  by (simp add: isspace_def is_space_char_def)

lemma http_posts_append: "http_posts (xs @ ys) = http_posts xs @ http_posts ys"
  by (induction xs) (simp_all split: event.splits)

lemma http_posts_failure_prints: "http_posts (post_failure_prints e) = []"
  by (cases e) (simp_all add: post_failure_prints_def)

lemma http_posts_post_message:
  "http_posts (snd (post_message w self title message_text))
     = (if message_text = [] \<or> isspace message_text then []
        else [post_request self title message_text])"
  by (simp add: post_message_def Let_def http_posts_append http_posts_failure_prints
           split: sum.splits)

lemma fst_post_message:
  "fst (post_message w self title message_text) \<longleftrightarrow>
     message_text \<noteq> [] \<and> \<not> isspace message_text \<and>
     (\<exists>resp. requests_post w (post_request self title message_text) = Inr resp
        \<and> \<not> (400 \<le> status_code resp \<and> status_code resp < 600)
        \<and> (status_code resp = 200 \<or> text_of resp = ''1''))"
  by (auto simp add: post_message_def Let_def raise_for_status_def split: sum.splits)

lemma str_in_iff: "str_in n h \<longleftrightarrow> (\<exists>ps ss. h = ps @ n @ ss)"
proof (induction h)
  case Nil
  then show ?case by auto
next
  case (Cons c cs)
  show ?case
  proof
    assume "str_in n (c # cs)"
    then consider "prefix n (c # cs)" | "str_in n cs" by auto
    then show "\<exists>ps ss. c # cs = ps @ n @ ss"
    proof cases
      case 1
      then obtain ss where "c # cs = n @ ss" by (auto simp: prefix_def)
      then have "c # cs = [] @ n @ ss" by simp
      then show ?thesis by blast
    next
      case 2
      with Cons.IH obtain ps ss where "cs = ps @ n @ ss" by blast
      then have "c # cs = (c # ps) @ n @ ss" by simp
      then show ?thesis by blast
    qed
  next
    assume "\<exists>ps ss. c # cs = ps @ n @ ss"
    then obtain ps ss where eq: "c # cs = ps @ n @ ss" by blast
    show "str_in n (c # cs)"
    proof (cases ps)
      case Nil
      with eq have "prefix n (c # cs)" by (simp add: prefix_def)
      then show ?thesis by simp
    next
      case (Cons p ps')
      with eq have "cs = ps' @ n @ ss" by simp
      with Cons.IH have "str_in n cs" by blast
      then show ?thesis by simp
    qed
  qed
qed

lemma str_in_prefix: "prefix n h \<Longrightarrow> str_in n h"
  by (auto simp: str_in_iff prefix_def intro: exI [of _ "[]"])

lemma str_in_middle: "str_in n (a @ n @ b)"
  by (auto simp: str_in_iff)

lemma ollama_calls_Nil [simp]: "ollama_calls [] = []"
  by (simp add: ollama_calls_def)

lemma ollama_calls_Print [simp]: "ollama_calls (Print x # evs) = ollama_calls evs"
  by (simp add: ollama_calls_def)

lemma ollama_calls_Input [simp]: "ollama_calls (Input x # evs) = ollama_calls evs"
  by (simp add: ollama_calls_def)

lemma ollama_calls_append: "ollama_calls (xs @ ys) = ollama_calls xs @ ollama_calls ys"
  by (simp add: ollama_calls_def)

lemma ollama_calls_transcriber_init: "ollama_calls (snd (transcriber_init w n)) = []"
  by (simp add: transcriber_init_def ollama_calls_def Let_def split: sum.splits)

lemma ollama_calls_transcribe_audio: "ollama_calls (snd (transcribe_audio w t p)) = []"
  by (simp add: transcribe_audio_def ollama_calls_def Let_def split: sum.splits exn.splits)

lemma ollama_calls_record_audio: "ollama_calls (snd (record_audio w d f)) = []"
  by (simp add: record_audio_def ollama_calls_def Let_def split: sum.splits)


lemma teams_poster_init_Some:
  "u \<noteq> [] \<Longrightarrow>
     teams_poster_init (Some u)
       = (Inr \<lparr>webhook_url = u\<rparr>,
          if \<not> startswith u ''https://''
          then [Print ''Warning: The provided webhook URL seems invalid. Ensure it's a correct MS Teams Incoming Webhook URL.'']
          else [])"
  by (simp add: teams_poster_init_def)


lemma transcribe_audio_missing:
  "model self \<Longrightarrow> \<not> path_exists w p \<Longrightarrow>
     transcribe_audio w self p = (''Error: Audio file '' @ p @ '' not found.'', [])"
  by (simp add: transcribe_audio_def)

lemma main_transcribe_missing:
  assumes "\<not> path_exists w p"
  shows "fst (main_transcribe w p) = Inr () \<and> ollama_calls (snd (main_transcribe w p)) = []"
proof (cases "transcriber_init w ''tiny''")
  case (Pair tr evs)
  have evs: "ollama_calls evs = []"
    using ollama_calls_transcriber_init [of w "''tiny''"] Pair by simp
  show ?thesis
  proof (cases "model tr")
    case True
    have "str_in ''Error:'' (''Error: Audio file '' @ p @ '' not found.'')"
      by (rule str_in_prefix) simp
    with True assms Pair evs show ?thesis
      by (simp add: main_transcribe_def transcribe_audio_missing ollama_calls_append)
  next
    case False
    with Pair evs show ?thesis
      by (simp add: main_transcribe_def ollama_calls_append)
  qed
qed

lemma main_missing:
  assumes "\<not> path_exists w ''recorded_audio.wav''"
  shows "ollama_calls (snd (main w)) = []"
proof -
  have t: "ollama_calls (snd (main_transcribe w ''recorded_audio.wav'')) = []"
    using main_transcribe_missing [OF assms] by simp
  have r: "ollama_calls (snd (record_audio w d ''recorded_audio.wav'')) = []" for d
    by (rule ollama_calls_record_audio)
  have f: "fst (record_audio w d ''recorded_audio.wav'') = Inr x \<Longrightarrow> x = ''recorded_audio.wav''"
    for d x
    by (simp add: record_audio_def Let_def split: sum.splits)
  show ?thesis
  proof (cases "builtin_int w (user_input w duration_question)")
    case None
    obtain r0 e0 where rec: "record_audio w 5 ''recorded_audio.wav'' = (r0, e0)"
      by (cases "record_audio w 5 ''recorded_audio.wav''")
    with r [of 5] f [of 5] t None show ?thesis
      by (cases r0)
         (simp_all add: main_def Let_def main_banner_def ollama_calls_append case_prod_beta)
  next
    case (Some d)
    obtain r0 e0 where rec: "record_audio w d ''recorded_audio.wav'' = (r0, e0)"
      by (cases "record_audio w d ''recorded_audio.wav''")
    with r [of d] f [of d] t Some assms show ?thesis
      by (cases r0)
         (simp_all add: main_def Let_def main_banner_def ollama_calls_append case_prod_beta)
  qed
qed








text \<open>
  The sentinel as the sources spell it has a capital \<open>N\<close>, which no lower-cased
  string contains: a test that puts in lower case only the text it searches, as the
  one written at line 163 of \<open>app.py\<close>, never finds it.
\<close>

lemma lower_char_not_N: "lower_char c \<noteq> CHR ''N''"
proof
  assume a: "lower_char c = CHR ''N''"
  define n where "n = (of_char c :: nat)"
  have u: "lower_char c
             = (if (65 \<le> n \<and> n \<le> 90) \<or> (192 \<le> n \<and> n \<le> 222 \<and> n \<noteq> 215)
                then char_of (n + 32) else c)"
    by (simp only: lower_char_def Let_def n_def)
  show False
  proof (cases "(65 \<le> n \<and> n \<le> 90) \<or> (192 \<le> n \<and> n \<le> 222 \<and> n \<noteq> 215)")
    case True
    with u have "lower_char c = char_of (n + 32)" by (simp only: if_True)
    with a have "(char_of (n + 32) :: char) = CHR ''N''" by (simp only:)
    then have "(of_char (char_of (n + 32) :: char) :: nat) = of_char (CHR ''N'')"
      by (simp only:)
    moreover have "(of_char (CHR ''N'') :: nat) = 78" by code_simp
    ultimately have "(n + 32) mod 256 = 78" by (simp only: of_char_of)
    moreover from True have "n + 32 < 256" by arith
    ultimately have "n + 32 = 78" by simp
    with True show False by arith
  next
    case False
    with u have "lower_char c = c" by (simp only: if_False)
    moreover have "(of_char (CHR ''N'') :: nat) = 78" by code_simp
    ultimately have "n = 78" using a by (simp only: n_def)
    with False show False by simp
  qed
qed

lemma sentinel_not_in_lower: "\<not> str_in ''No specific action items found'' (lower a)"
proof
  assume "str_in ''No specific action items found'' (lower a)"
  then obtain ps ss where "lower a = ps @ ''No specific action items found'' @ ss"
    by (auto simp add: str_in_iff)
  then have "CHR ''N'' \<in> set (lower a)" by simp
  then obtain x where "lower_char x = CHR ''N''" by (auto simp add: lower_def)
  then show False by (simp add: lower_char_not_N)
qed

text \<open>
  When section 4 of \<open>main\<close> sends a request: the action items are not empty, have
  neither \<open>Error:\<close> nor the sentinel (in its capitals) in them, the webhook URL is
  set, the user answered \<open>yes\<close>, and the text is not blank.
\<close>

lemma main_teams_posts:
  "http_posts (main_teams w f a)
     = (if a \<noteq> [] \<and> \<not> str_in ''Error:'' a \<and> \<not> str_in ''No specific action items found'' a
           \<and> (\<exists>u. getenv w ''MS_TEAMS_WEBHOOK_URL'' = Some u \<and> u \<noteq> [])
           \<and> lower (strip (user_input w
                 ''Do you want to post these action items to MS Teams? (yes/no): '')) = ''yes''
           \<and> \<not> isspace a
        then [post_request \<lparr>webhook_url = the (getenv w ''MS_TEAMS_WEBHOOK_URL'')\<rparr>
                (Some (''Action Items from: '' @ basename f)) a]
        else [])"
  by (auto simp add: main_teams_def Let_def http_posts_append http_posts_post_message
        teams_poster_init_Some case_prod_beta split: option.splits)

section \<open>Properties of teams_poster.py\<close>

text \<open>
  C1, as the code has it. \<open>post_message\<close> always returns a truth value. With a body
  that is neither empty nor whitespace it returns \<open>True\<close> exactly when
  \<open>requests.post\<close> returned a response (no connection error, no timeout) whose
  status is 200, or whose body is \<open>1\<close> and whose status is not a 4xx or 5xx one:
  \<open>raise_for_status\<close> runs before the test, so an error status is a failure whatever
  the body.
\<close>

theorem post_message_true_iff:
  assumes "message_text \<noteq> []" and "\<not> isspace message_text"
  shows "fst (post_message w self title message_text) \<longleftrightarrow>
           (\<exists>resp. requests_post w (post_request self title message_text) = Inr resp
              \<and> (status_code resp = 200
                  \<or> (text_of resp = ''1''
                      \<and> \<not> (400 \<le> status_code resp \<and> status_code resp < 600))))"
  using assms by (auto simp add: fst_post_message)

theorem post_message_true_iff_witness:
  "''- item'' \<noteq> [] \<and> \<not> isspace ''- item''
   \<and> fst (post_message sample_world sample_poster (Some ''Actions'') ''- item'')"
  using post_message_true_iff [of "''- item''" sample_world sample_poster "Some ''Actions''"]
  by (simp add: not_isspace_item sample_world_def sample_response_def)

text \<open>
  The claim as written fails where the webhook answers an error status with the body
  \<open>1\<close>: the body is \<open>1\<close>, and the call returns \<open>False\<close>.
\<close>

theorem post_message_body_1_status_500:
  "requests_post server_error_world (post_request sample_poster (Some ''Actions'') ''- item'')
     = Inr server_error_response
   \<and> \<not> (fst (post_message server_error_world sample_poster (Some ''Actions'') ''- item'')
          \<longleftrightarrow> (status_code server_error_response = 200
                \<or> text_of server_error_response = ''1''))"
  by (simp add: fst_post_message not_isspace_item server_error_world_def
        server_error_response_def)

text \<open>
  C7. For every empty or whitespace-only message body, \<open>post_message\<close> returns
  \<open>False\<close> as an ordinary value, says on the console that there is nothing to post,
  and builds and sends nothing: that line is the only event of the call, so no HTTP
  request is made, whereas a delivery failure always comes after a request.
\<close>

theorem post_message_empty_body_noop:
  "message_text = [] \<or> isspace message_text \<Longrightarrow>
     post_message w self title message_text
       = (False, [Print ''Message text is empty. Nothing to post to Teams.''])
     \<and> http_posts (snd (post_message w self title message_text)) = []"
  by (simp add: post_message_def)

theorem post_message_empty_body_noop_witness:
  "(''  '' = [] \<or> isspace ''  '')
   \<and> post_message sample_world sample_poster (Some ''Actions'') ''  ''
       = (False, [Print ''Message text is empty. Nothing to post to Teams.''])
   \<and> http_posts (snd (post_message sample_world sample_poster (Some ''Actions'') ''  '')) = []"
  using post_message_empty_body_noop [of "''  ''" sample_world sample_poster "Some ''Actions''"]
  by (simp add: isspace_blanks)

text \<open>
  C8. A call of \<open>post_message\<close> sends at most one request, and what it sends is a POST
  to the poster's URL with the single header \<open>Content-Type: application/json\<close>, a
  timeout of 10 seconds, and the card as its JSON body: a \<open>message\<close> with one
  attachment of content type \<open>application/vnd.microsoft.card.adaptive\<close>, whose
  content is an \<open>AdaptiveCard\<close> of version \<open>1.4\<close> with a body of two text blocks,
  the first bolder and medium with the title as its text (the string itself, or null
  for \<open>None\<close>), the second wrapped with the message text as its text. (The
  attachment also has a null \<open>contentUrl\<close>, and the content a \<open>$schema\<close>.)
\<close>

theorem post_message_sends_adaptive_card:
  "http_posts (snd (post_message w self title message_text))
     = (if message_text = [] \<or> isspace message_text then []
        else [post_request self title message_text])
   \<and> req_url (post_request self title message_text) = webhook_url self
   \<and> req_headers (post_request self title message_text)
       = [(''Content-Type'', ''application/json'')]
   \<and> req_timeout (post_request self title message_text) = 10
   \<and> jmember ''type'' (req_data (post_request self title message_text))
       = Some (JStr ''message'')
   \<and> (\<exists>att content.
         jmember ''attachments'' (req_data (post_request self title message_text))
           = Some (JArr [att])
         \<and> jmember ''contentType'' att = Some (JStr ''application/vnd.microsoft.card.adaptive'')
         \<and> jmember ''content'' att = Some content
         \<and> jmember ''type'' content = Some (JStr ''AdaptiveCard'')
         \<and> jmember ''version'' content = Some (JStr ''1.4'')
         \<and> jmember ''body'' content
             = Some (JArr [JObj [(''type'', JStr ''TextBlock''),
                                 (''text'', (case title of None \<Rightarrow> JNull | Some x \<Rightarrow> JStr x)),
                                 (''weight'', JStr ''bolder''), (''size'', JStr ''medium'')],
                           JObj [(''type'', JStr ''TextBlock''), (''text'', JStr message_text),
                                 (''wrap'', JBool True)]]))
   \<and> card_blocks (req_data (post_request self (Some t) message_text))
       = Some [JObj [(''type'', JStr ''TextBlock''), (''text'', JStr t),
                     (''weight'', JStr ''bolder''), (''size'', JStr ''medium'')],
               JObj [(''type'', JStr ''TextBlock''), (''text'', JStr message_text),
                     (''wrap'', JBool True)]]"
  by (simp add: http_posts_post_message post_request_def card_payload_def card_blocks_def)

text \<open>
  C10. The title is never examined. A call sends no request exactly when the body is
  empty or whitespace, whatever the title. With any other body one request is sent
  for every title, and the text of the first block of its card, the bolder medium
  one, is the title as it was given: the string \<open>t\<close> itself for a title \<open>t\<close>, be it
  empty or blank, and null for \<open>None\<close>.
\<close>

theorem post_message_title_unchecked:
  "(http_posts (snd (post_message w self title message_text)) = []
      \<longleftrightarrow> message_text = [] \<or> isspace message_text)
   \<and> (message_text \<noteq> [] \<and> \<not> isspace message_text \<longrightarrow>
        http_posts (snd (post_message w self (Some t) message_text))
          = [post_request self (Some t) message_text]
        \<and> card_blocks (req_data (post_request self (Some t) message_text))
            = Some [JObj [(''type'', JStr ''TextBlock''), (''text'', JStr t),
                          (''weight'', JStr ''bolder''), (''size'', JStr ''medium'')],
                    JObj [(''type'', JStr ''TextBlock''), (''text'', JStr message_text),
                          (''wrap'', JBool True)]]
        \<and> http_posts (snd (post_message w self None message_text))
          = [post_request self None message_text]
        \<and> card_blocks (req_data (post_request self None message_text))
            = Some [JObj [(''type'', JStr ''TextBlock''), (''text'', JNull),
                          (''weight'', JStr ''bolder''), (''size'', JStr ''medium'')],
                    JObj [(''type'', JStr ''TextBlock''), (''text'', JStr message_text),
                          (''wrap'', JBool True)]])"
  by (simp add: http_posts_post_message post_request_def card_payload_def card_blocks_def)

theorem post_message_title_unchecked_witness:
  "(''- item'' \<noteq> [] \<and> \<not> isspace ''- item'')
   \<and> http_posts (snd (post_message sample_world sample_poster (Some []) ''- item''))
       = [post_request sample_poster (Some []) ''- item'']
   \<and> card_blocks (req_data (post_request sample_poster (Some []) ''- item''))
       = Some [JObj [(''type'', JStr ''TextBlock''), (''text'', JStr []),
                     (''weight'', JStr ''bolder''), (''size'', JStr ''medium'')],
               JObj [(''type'', JStr ''TextBlock''), (''text'', JStr ''- item''),
                     (''wrap'', JBool True)]]
   \<and> http_posts (snd (post_message sample_world sample_poster (Some ''  Notes '') ''- item''))
       = [post_request sample_poster (Some ''  Notes '') ''- item'']
   \<and> card_blocks (req_data (post_request sample_poster (Some ''  Notes '') ''- item''))
       = Some [JObj [(''type'', JStr ''TextBlock''), (''text'', JStr ''  Notes ''),
                     (''weight'', JStr ''bolder''), (''size'', JStr ''medium'')],
               JObj [(''type'', JStr ''TextBlock''), (''text'', JStr ''- item''),
                     (''wrap'', JBool True)]]
   \<and> http_posts (snd (post_message sample_world sample_poster None ''- item''))
       = [post_request sample_poster None ''- item'']
   \<and> card_blocks (req_data (post_request sample_poster None ''- item''))
       = Some [JObj [(''type'', JStr ''TextBlock''), (''text'', JNull),
                     (''weight'', JStr ''bolder''), (''size'', JStr ''medium'')],
               JObj [(''type'', JStr ''TextBlock''), (''text'', JStr ''- item''),
                     (''wrap'', JBool True)]]"
  using post_message_title_unchecked [of sample_world sample_poster "Some []" "''- item''" "[]"]
    post_message_title_unchecked [of sample_world sample_poster None "''- item''" "''  Notes ''"]
  by (simp add: not_isspace_item)

section \<open>Properties of text_processor.py and transcriber.py\<close>

text \<open>
  C4. For every empty or whitespace-only input, \<open>summarize_text\<close> and
  \<open>generate_action_items\<close> each return their empty-input error as a string, which
  carries the marker \<open>Error:\<close>, and do nothing else: the call has no event at all,
  so the generative-model client is not invoked.
\<close>

theorem empty_input_rejected:
  "text = [] \<or> isspace text \<Longrightarrow>
     summarize_text w self text = (''Error: Input text is empty, cannot summarize.'', [])
     \<and> generate_action_items w self text
         = (''Error: Input text is empty, cannot generate action items.'', [])
     \<and> str_in ''Error:'' (fst (summarize_text w self text))
     \<and> str_in ''Error:'' (fst (generate_action_items w self text))
     \<and> ollama_calls (snd (summarize_text w self text)) = []
     \<and> ollama_calls (snd (generate_action_items w self text)) = []"
  by (simp add: summarize_text_def generate_action_items_def)

theorem empty_input_rejected_witness:
  "(''  '' = [] \<or> isspace ''  '')
   \<and> summarize_text sample_world \<lparr>ollama_model_name = ''llama2'', client_host = None\<rparr> ''  ''
       = (''Error: Input text is empty, cannot summarize.'', [])
   \<and> generate_action_items sample_world \<lparr>ollama_model_name = ''llama2'', client_host = None\<rparr>
         ''  ''
       = (''Error: Input text is empty, cannot generate action items.'', [])"
  using empty_input_rejected [of "''  ''" sample_world
          "\<lparr>ollama_model_name = ''llama2'', client_host = None\<rparr>"]
  by (simp add: isspace_blanks)

text \<open>
  C5. With a loaded model and a path at which no file exists, \<open>transcribe_audio\<close>
  returns the string \<open>Error: Audio file <path> not found.\<close>, which carries the marker
  \<open>Error:\<close> and the path, and has no event, so the speech model is not invoked. On
  that result the rest of \<open>main\<close> returns without a single call to the generative
  model, the constructor of \<open>TextProcessor\<close> included; and so does the whole of
  \<open>main\<close> when its audio file does not exist.
\<close>

theorem missing_audio_file_halts:
  assumes "\<not> path_exists w audio_file_path" and "model self"
  shows "transcribe_audio w self audio_file_path
           = (''Error: Audio file '' @ audio_file_path @ '' not found.'', [])
         \<and> str_in ''Error:'' (fst (transcribe_audio w self audio_file_path))
         \<and> str_in audio_file_path (fst (transcribe_audio w self audio_file_path))
         \<and> whisper_calls (snd (transcribe_audio w self audio_file_path)) = []
         \<and> fst (main_transcribe w audio_file_path) = Inr ()
         \<and> ollama_calls (snd (main_transcribe w audio_file_path)) = []
         \<and> (audio_file_path = ''recorded_audio.wav'' \<longrightarrow> ollama_calls (snd (main w)) = [])"
proof -
  have r: "transcribe_audio w self audio_file_path
             = (''Error: Audio file '' @ audio_file_path @ '' not found.'', [])"
    using assms by (simp add: transcribe_audio_missing)
  have e: "str_in ''Error:'' (''Error: Audio file '' @ audio_file_path @ '' not found.'')"
    by (rule str_in_prefix) simp
  have p: "str_in audio_file_path (''Error: Audio file '' @ audio_file_path @ '' not found.'')"
    by (rule str_in_middle)
  from r e p main_transcribe_missing [OF assms(1)] main_missing assms(1) show ?thesis
    by (auto simp add: whisper_calls_def)
qed

theorem missing_audio_file_halts_witness:
  "\<not> path_exists (sample_world\<lparr>path_exists := (\<lambda>p. False)\<rparr>) ''recorded_audio.wav''
   \<and> model \<lparr>model_name = ''tiny'', model = True\<rparr>
   \<and> transcribe_audio (sample_world\<lparr>path_exists := (\<lambda>p. False)\<rparr>)
        \<lparr>model_name = ''tiny'', model = True\<rparr> ''recorded_audio.wav''
       = (''Error: Audio file recorded_audio.wav not found.'', [])
   \<and> ollama_calls (snd (main (sample_world\<lparr>path_exists := (\<lambda>p. False)\<rparr>))) = []"
  using missing_audio_file_halts [of "sample_world\<lparr>path_exists := (\<lambda>p. False)\<rparr>"
          "''recorded_audio.wav''" "\<lparr>model_name = ''tiny'', model = True\<rparr>"]
  by (simp add: sample_world_def)

section \<open>Properties of main.py\<close>




text \<open>
  C2, at an input where \<open>main\<close> departs from it. \<open>main\<close> looks for the sentinel with
  its capitals. When the generative model answers with the sentinel in lower case
  and a full stop, \<open>generate_action_items\<close> returns that answer, the test of section 4
  takes it for action items, the user is asked, and on \<open>yes\<close> it is posted to Teams;
  the answer that spells the sentinel as the prompt words it is not posted.
\<close>

theorem sentinel_reply_is_posted:
  "fst (generate_action_items lowercase_sentinel_world sample_processor '' Mike will fix the login bug by Friday.'')
     = ''no specific action items found.''
   \<and> str_in (lower ''No specific action items found'')
         (lower ''no specific action items found.'')
   \<and> http_posts (snd (main lowercase_sentinel_world))
     = [post_request sample_poster (Some ''Action Items from: recorded_audio.wav'')
          ''no specific action items found.'']
   \<and> http_posts (snd (main sentinel_world)) = []"
  by code_simp

text \<open>
  C3, at an input where the code departs from it. When the generative model is not
  installed, \<open>generate_action_items\<close> returns the text of its \<open>ResponseError\<close> clause,
  which begins \<open>Error during\<close> and so has no \<open>Error:\<close> in it. The test of \<open>main\<close>
  takes it for action items, the user is asked, and on \<open>yes\<close> the error text is
  posted to Teams.
\<close>

theorem model_error_is_posted:
  "fst (generate_action_items model_missing_world sample_processor ''Mike will fix it.'')
     = ''Error during action item generation with Ollama: 404 - model 'llama2' not found''
   \<and> \<not> str_in ''Error:''
         ''Error during action item generation with Ollama: 404 - model 'llama2' not found''
   \<and> http_posts (snd (main model_missing_world))
     = [post_request sample_poster (Some ''Action Items from: recorded_audio.wav'')
          ''Error during action item generation with Ollama: 404 - model 'llama2' not found'']"
  by code_simp

end
